theory Spec2Isabelle
  imports Main
begin

section \<open>Process environment and backend detection (projects-server)\<close>

text \<open>
  \<^verbatim>\<open>process.env\<close> maps a variable name to a string or to \<^verbatim>\<open>undefined\<close>. The seven
  variables the store reads are the fields of the record; \<open>None\<close> is \<^verbatim>\<open>undefined\<close>.
\<close>

record env =
  VERCEL :: "string option"
  VERCEL_ENV :: "string option"
  UPSTASH_REDIS_REST_URL :: "string option"
  UPSTASH_REDIS_REST_TOKEN :: "string option"
  KV_REST_API_URL :: "string option"
  KV_REST_API_TOKEN :: "string option"
  BLOB_READ_WRITE_TOKEN :: "string option"

text \<open>JavaScript truthiness of a \<^verbatim>\<open>string | undefined\<close>: the empty string is falsy.\<close>

definition truthy :: "string option \<Rightarrow> bool" where
  "truthy v = (case v of None \<Rightarrow> False | Some s \<Rightarrow> s \<noteq> [])"

text \<open>\<^verbatim>\<open>process.env.VERCEL === '1' || !!process.env.VERCEL_ENV\<close>\<close>

definition isVercelPlatform :: "env \<Rightarrow> bool" where
  "isVercelPlatform e = (VERCEL e = Some ''1'' \<or> truthy (VERCEL_ENV e))"

text \<open>\<^verbatim>\<open>!!(process.env.UPSTASH_REDIS_REST_URL || process.env.KV_REST_API_URL)\<close>\<close>

definition hasRedisConfig :: "env \<Rightarrow> bool" where
  "hasRedisConfig e = (truthy (UPSTASH_REDIS_REST_URL e) \<or> truthy (KV_REST_API_URL e))"

definition shouldUseRedis :: "env \<Rightarrow> bool" where
  "shouldUseRedis e = (if isVercelPlatform e then True else hasRedisConfig e)"

record redisConfig =
  url :: string
  token :: string

text \<open>
  The Vercel KV pair is tried first, then the Upstash pair; \<open>None\<close> is the \<^verbatim>\<open>null\<close>
  of the source. Inside a branch both variables are truthy, so \<open>the\<close> is applied to
  \<open>Some\<close> only.
\<close>

definition getRedisConfig :: "env \<Rightarrow> redisConfig option" where
  "getRedisConfig e =
     (if truthy (KV_REST_API_URL e) \<and> truthy (KV_REST_API_TOKEN e)
      then Some \<lparr>url = the (KV_REST_API_URL e), token = the (KV_REST_API_TOKEN e)\<rparr>
      else if truthy (UPSTASH_REDIS_REST_URL e) \<and> truthy (UPSTASH_REDIS_REST_TOKEN e)
      then Some \<lparr>url = the (UPSTASH_REDIS_REST_URL e), token = the (UPSTASH_REDIS_REST_TOKEN e)\<rparr>
      else None)"

section \<open>Errors\<close>

text \<open>
  Every \<^verbatim>\<open>throw\<close> of the source is a value of \<open>error\<close>:
  \<open>ConfigurationMissing\<close> is the \<^verbatim>\<open>new Error('Redis/KV configuration is required on Vercel...')\<close>
  of the projects store, \<open>RemoteError\<close> what the Redis or blob client throws (with its
  message), \<open>FsError\<close> what \<^verbatim>\<open>fs\<close> throws (with its code), \<open>SyntaxError\<close> what
  \<^verbatim>\<open>JSON.parse\<close> throws, \<open>CookieError\<close> what \<^verbatim>\<open>cookies()\<close> throws.
\<close>

datatype error =
  ConfigurationMissing
| RemoteError string
| FsError string
| SyntaxError
| CookieError string

section \<open>Admin session check (auth-server)\<close>

type_synonym cookieStore = "string \<rightharpoonup> string"

definition ADMIN_COOKIE_NAME :: string where
  "ADMIN_COOKIE_NAME = ''admin_session''"

text \<open>
  \<^verbatim>\<open>cookies()\<close> either yields the request's cookie store or throws; the argument is
  that outcome. The result is the outcome of the async function: \<open>Inl\<close> would be a
  rejected promise. \<^verbatim>\<open>cookieStore.get(name)?.value\<close> is the cookie's value, or
  \<^verbatim>\<open>undefined\<close> when the cookie is absent.
\<close>

definition isAdminServer :: "error + cookieStore \<Rightarrow> error + bool" where
  "isAdminServer cookies =
     (case cookies of
        Inr cookieStore \<Rightarrow> Inr (cookieStore ADMIN_COOKIE_NAME = Some ''authenticated'')
      | Inl e \<Rightarrow> Inr False)"

section \<open>Records\<close>

text \<open>
  A timestamp is the string \<^verbatim>\<open>new Date().toISOString()\<close>. \<open>ISOString t\<close> stands for
  the ISO-8601 rendering of the instant \<open>t\<close> (milliseconds since the epoch) that the
  clock returned; distinct instants have distinct renderings.
\<close>

datatype timestamp = ISOString nat

text \<open>\<^verbatim>\<open>Project\<close>; the optional fields are \<open>None\<close> when \<^verbatim>\<open>undefined\<close>.\<close>

record project =
  p_id :: string
  name :: string
  description :: "string option"
  moduleName :: "string option"
  supervisorName :: "string option"
  createdAt :: timestamp
  updatedAt :: timestamp

text \<open>
  \<^verbatim>\<open>Partial<Pick<Project, 'name' | 'description' | 'moduleName' | 'supervisorName'>>\<close>:
  the outer \<open>None\<close> is a key that is not in the object, \<open>Some v\<close> a key with the value
  \<open>v\<close> (for the optional fields \<open>v\<close> may again be \<^verbatim>\<open>undefined\<close>).
\<close>

record projectUpdates =
  u_name :: "string option"
  u_description :: "string option option"
  u_moduleName :: "string option option"
  u_supervisorName :: "string option option"

record fileMetadata =
  f_id :: string
  projectId :: string
  categoryId :: string
  filename :: string
  originalName :: string
  f_size :: nat
  mimeType :: string
  uploadedAt :: string
  blobUrl :: "string option"

section \<open>The world the stores act on\<close>

text \<open>
  The text of a collection file, up to \<^verbatim>\<open>JSON.parse\<close>: either the serialisation of an
  array of records (\<^verbatim>\<open>JSON.stringify\<close> of it, which \<^verbatim>\<open>JSON.parse\<close> reads back), or
  text that \<^verbatim>\<open>JSON.parse\<close> rejects.
\<close>

datatype 'a document = Document "'a list" | Unparseable

text \<open>The calls that leave the process, in the order they are made.\<close>

datatype event =
  FsMkdir string
| FsWriteFile string
| FsUnlink string
| KvGet string
| KvSet string
| BlobDel string

text \<open>
  \<^item> \<open>fs_writable\<close>: whether the local filesystem accepts writes (it does not on a
    read-only platform); \<open>data_dir\<close>: whether the data directory exists;
    \<open>projects_file\<close>, \<open>files_file\<close>: the two collection files (\<open>None\<close>: no such file);
    \<open>upload_files\<close>: the other regular files (the uploads live here) and \<open>dirs\<close>: the
    other directories, both by normalised path relative to \<^verbatim>\<open>process.cwd()\<close>.
  \<^item> \<open>kv_projects\<close>, \<open>kv_files\<close>: the values under the two keys of the remote
    key-value store (\<open>None\<close>: never set); \<open>kv_outages\<close>: the fate of the coming
    requests to it, \<open>Some msg\<close> for a request that throws (empty: all succeed).
  \<^item> \<open>blobs\<close>: the URLs present in the remote blob store; \<open>blob_outages\<close> as above.
  \<^item> \<open>now\<close>: the last clock reading; \<open>ticks\<close>: by how many milliseconds the clock
    has advanced at each coming reading (empty: it stands still).
  \<^item> \<open>trace\<close>: the writes and remote requests attempted so far.
\<close>

record world =
  fs_writable :: bool
  data_dir :: bool
  projects_file :: "project document option"
  files_file :: "fileMetadata document option"
  upload_files :: "string set"
  dirs :: "string set"
  kv_projects :: "project list option"
  kv_files :: "fileMetadata list option"
  kv_outages :: "string option list"
  blobs :: "string set"
  blob_outages :: "string option list"
  now :: nat
  ticks :: "nat list"
  trace :: "event list"

text \<open>
  A call that may throw and may change the world: \<open>Inl\<close> is the exception (or the
  rejected promise), \<open>Inr\<close> the returned value.
\<close>

type_synonym 'a io = "world \<Rightarrow> (error + 'a) \<times> world"

definition ret :: "'a \<Rightarrow> 'a io" where
  "ret x w = (Inr x, w)"

definition throw :: "error \<Rightarrow> 'a io" where
  "throw e w = (Inl e, w)"

text \<open>Sequencing: an exception of the first call skips the rest.\<close>

definition andThen :: "'a io \<Rightarrow> ('a \<Rightarrow> 'b io) \<Rightarrow> 'b io" where
  "andThen m f w = (case m w of (Inl e, w') \<Rightarrow> (Inl e, w') | (Inr x, w') \<Rightarrow> f x w')"

text \<open>\<^verbatim>\<open>try { m } catch (error) { h(error) }\<close>\<close>

definition try_catch :: "'a io \<Rightarrow> (error \<Rightarrow> 'a io) \<Rightarrow> 'a io" where
  "try_catch m h w = (case m w of (Inl e, w') \<Rightarrow> h e w' | (Inr x, w') \<Rightarrow> (Inr x, w'))"

definition logged :: "event \<Rightarrow> world \<Rightarrow> world" where
  "logged ev w = w\<lparr>trace := trace w @ [ev]\<rparr>"

subsection \<open>Clock\<close>

text \<open>\<^verbatim>\<open>Date.now()\<close> and \<^verbatim>\<open>new Date()\<close>: each reads the clock anew.\<close>

definition Date_now :: "nat io" where
  "Date_now w =
     (case ticks w of
        [] \<Rightarrow> (Inr (now w), w)
      | d # ds \<Rightarrow> (Inr (now w + d), w\<lparr>now := now w + d, ticks := ds\<rparr>))"

text \<open>\<^verbatim>\<open>Number.prototype.toString()\<close> of a non-negative integer: its decimal digits.\<close>

definition digit :: "nat \<Rightarrow> char" where
  "digit d = ''0123456789'' ! d"

fun toString :: "nat \<Rightarrow> string" where
  "toString n = (if n < 10 then [digit n] else toString (n div 10) @ [digit (n mod 10)])"

declare toString.simps [simp del]

subsection \<open>Paths\<close>

text \<open>
  \<^verbatim>\<open>path.join\<close> and \<^verbatim>\<open>path.normalize\<close> of Node, POSIX flavour. Paths are written
  relative to \<^verbatim>\<open>process.cwd()\<close>, which the source puts in front of \<^verbatim>\<open>data\<close> and
  \<^verbatim>\<open>uploads\<close>; the working directory is taken to lie deeper than any run of \<^verbatim>\<open>..\<close>
  climbs.
\<close>

fun splitSlash :: "string \<Rightarrow> string list" where
  "splitSlash [] = [[]]"
| "splitSlash (c # cs) =
     (if c = CHR ''/'' then [] # splitSlash cs
      else (case splitSlash cs of [] \<Rightarrow> [[c]] | s # ss \<Rightarrow> (c # s) # ss))"

fun joinSlash :: "string list \<Rightarrow> string" where
  "joinSlash [] = []"
| "joinSlash [s] = s"
| "joinSlash (s # t # ss) = s @ ''/'' @ joinSlash (t # ss)"

text \<open>
  \<^verbatim>\<open>normalizeString\<close>: empty segments and \<^verbatim>\<open>.\<close> are dropped; \<^verbatim>\<open>..\<close> takes back the segment
  before it, and is kept (relative path) or dropped (absolute path) when there is none
  to take back.
\<close>

fun normalizeString :: "bool \<Rightarrow> string list \<Rightarrow> string list \<Rightarrow> string list" where
  "normalizeString allowAboveRoot res [] = res"
| "normalizeString allowAboveRoot res (s # ss) =
     (if s = [] \<or> s = ''.'' then normalizeString allowAboveRoot res ss
      else if s = ''..'' then
        (if res \<noteq> [] \<and> last res \<noteq> ''..''
         then normalizeString allowAboveRoot (butlast res) ss
         else if allowAboveRoot then normalizeString allowAboveRoot (res @ [''..'']) ss
         else normalizeString allowAboveRoot res ss)
      else normalizeString allowAboveRoot (res @ [s]) ss)"

definition normalize :: "string \<Rightarrow> string" where
  "normalize path =
     (if path = [] then ''.''
      else
        let isAbsolute = (hd path = CHR ''/'');
            trailingSeparator = (last path = CHR ''/'');
            p = joinSlash (normalizeString (\<not> isAbsolute) [] (splitSlash path))
        in if p = [] then (if isAbsolute then ''/'' else if trailingSeparator then ''./'' else ''.'')
           else (if isAbsolute then ''/'' else []) @ p @ (if trailingSeparator then ''/'' else []))"

definition path_join :: "string list \<Rightarrow> string" where
  "path_join args =
     (let joined = joinSlash (filter (\<lambda>arg. arg \<noteq> []) args)
      in if joined = [] then ''.'' else normalize joined)"

subsection \<open>Local filesystem\<close>

definition DATA_DIR :: string where
  "DATA_DIR = ''data''"

definition PROJECTS_FILE :: string where
  "PROJECTS_FILE = ''data/projects.json''"

definition FILES_DATA_FILE :: string where
  "FILES_DATA_FILE = ''data/files.json''"

definition UPLOADS_DIR :: string where
  "UPLOADS_DIR = ''uploads''"

definition existsSync_DATA_DIR :: "bool io" where
  "existsSync_DATA_DIR w = (Inr (data_dir w), w)"

definition existsSync_PROJECTS_FILE :: "bool io" where
  "existsSync_PROJECTS_FILE w = (Inr (projects_file w \<noteq> None), w)"

definition existsSync_FILES_DATA_FILE :: "bool io" where
  "existsSync_FILES_DATA_FILE w = (Inr (files_file w \<noteq> None), w)"

text \<open>
  \<^verbatim>\<open>fs.mkdirSync(DATA_DIR, { recursive: true })\<close>, called when the directory does not
  exist; on a filesystem that takes no writes the recursive \<^verbatim>\<open>mkdir\<close> throws
  \<^verbatim>\<open>ENOENT\<close>.
\<close>

definition mkdirSync_DATA_DIR :: "unit io" where
  "mkdirSync_DATA_DIR w =
     (let w1 = logged (FsMkdir DATA_DIR) w
      in if fs_writable w then (Inr (), w1\<lparr>data_dir := True\<rparr>)
         else (Inl (FsError ''ENOENT''), w1))"

text \<open>\<^verbatim>\<open>fs.writeFileSync\<close> replaces the whole file, or throws and leaves it as it was.\<close>

definition writeFileSync_PROJECTS_FILE :: "project document \<Rightarrow> unit io" where
  "writeFileSync_PROJECTS_FILE doc w =
     (let w1 = logged (FsWriteFile PROJECTS_FILE) w
      in if \<not> data_dir w then (Inl (FsError ''ENOENT''), w1)
         else if \<not> fs_writable w then (Inl (FsError ''EROFS''), w1)
         else (Inr (), w1\<lparr>projects_file := Some doc\<rparr>))"

definition writeFileSync_FILES_DATA_FILE :: "fileMetadata document \<Rightarrow> unit io" where
  "writeFileSync_FILES_DATA_FILE doc w =
     (let w1 = logged (FsWriteFile FILES_DATA_FILE) w
      in if \<not> data_dir w then (Inl (FsError ''ENOENT''), w1)
         else if \<not> fs_writable w then (Inl (FsError ''EROFS''), w1)
         else (Inr (), w1\<lparr>files_file := Some doc\<rparr>))"

definition readFileSync_PROJECTS_FILE :: "project document io" where
  "readFileSync_PROJECTS_FILE w =
     (case projects_file w of None \<Rightarrow> (Inl (FsError ''ENOENT''), w) | Some doc \<Rightarrow> (Inr doc, w))"

definition readFileSync_FILES_DATA_FILE :: "fileMetadata document io" where
  "readFileSync_FILES_DATA_FILE w =
     (case files_file w of None \<Rightarrow> (Inl (FsError ''ENOENT''), w) | Some doc \<Rightarrow> (Inr doc, w))"

text \<open>
  What is at a path. The data directory and the two collection files are the fields of
  their own; every other path is looked up in \<open>dirs\<close> and \<open>upload_files\<close>. The working
  directory and its ancestors (\<^verbatim>\<open>.\<close> and runs of \<^verbatim>\<open>..\<close>) are directories that always
  exist. A directory is also reached with a trailing slash.
\<close>

definition stripSlash :: "string \<Rightarrow> string" where
  "stripSlash path =
     (if path \<noteq> ''/'' \<and> path \<noteq> [] \<and> last path = CHR ''/'' then butlast path else path)"

definition is_dir :: "world \<Rightarrow> string \<Rightarrow> bool" where
  "is_dir w path =
     (let q = stripSlash path
      in if q = DATA_DIR then data_dir w
         else q \<in> dirs w \<or> q = ''.'' \<or> list_all (\<lambda>s. s = ''..'') (splitSlash q))"

definition is_file :: "world \<Rightarrow> string \<Rightarrow> bool" where
  "is_file w path =
     (if path = PROJECTS_FILE then projects_file w \<noteq> None
      else if path = FILES_DATA_FILE then files_file w \<noteq> None
      else path \<in> upload_files w)"

text \<open>\<^verbatim>\<open>fs.existsSync(path)\<close>: true for a regular file and for a directory.\<close>

definition existsSync :: "string \<Rightarrow> bool io" where
  "existsSync path w = (Inr (is_file w path \<or> is_dir w path), w)"

definition remove_file :: "string \<Rightarrow> world \<Rightarrow> world" where
  "remove_file path w =
     (if path = PROJECTS_FILE then w\<lparr>projects_file := None\<rparr>
      else if path = FILES_DATA_FILE then w\<lparr>files_file := None\<rparr>
      else w\<lparr>upload_files := upload_files w - {path}\<rparr>)"

text \<open>
  \<^verbatim>\<open>fs.unlinkSync(path)\<close> removes a regular file; it throws on a directory (\<^verbatim>\<open>EISDIR\<close>
  on Linux), on a path with nothing at it, and on a filesystem that takes no writes.
\<close>

definition unlinkSync :: "string \<Rightarrow> unit io" where
  "unlinkSync filePath w =
     (let w1 = logged (FsUnlink filePath) w
      in if is_dir w filePath then (Inl (FsError ''EISDIR''), w1)
         else if \<not> is_file w filePath then (Inl (FsError ''ENOENT''), w1)
         else if \<not> fs_writable w then (Inl (FsError ''EROFS''), w1)
         else (Inr (), remove_file filePath w1))"

definition JSON_parse :: "'a document \<Rightarrow> 'a list io" where
  "JSON_parse doc = (case doc of Document xs \<Rightarrow> ret xs | Unparseable \<Rightarrow> throw SyntaxError)"

subsection \<open>Remote key-value store and remote blob store\<close>

text \<open>
  One request to the key-value store: it is recorded, takes the next entry of
  \<open>kv_outages\<close> and throws when that entry says so.
\<close>

definition kv_request :: "event \<Rightarrow> unit io" where
  "kv_request ev w =
     (let w1 = (logged ev w)\<lparr>kv_outages := tl (kv_outages w)\<rparr>
      in case kv_outages w of
           Some msg # _ \<Rightarrow> (Inl (RemoteError msg), w1)
         | _ \<Rightarrow> (Inr (), w1))"

definition PROJECTS_KEY :: string where
  "PROJECTS_KEY = ''projects''"

definition FILES_KEY :: string where
  "FILES_KEY = ''files''"

text \<open>\<^verbatim>\<open>redis.get(key)\<close> is \<^verbatim>\<open>null\<close> (\<open>None\<close>) for a key that was never set.\<close>

definition redis_get_projects :: "project list option io" where
  "redis_get_projects = andThen (kv_request (KvGet PROJECTS_KEY)) (\<lambda>_ w. (Inr (kv_projects w), w))"

definition redis_set_projects :: "project list \<Rightarrow> unit io" where
  "redis_set_projects projects =
     andThen (kv_request (KvSet PROJECTS_KEY)) (\<lambda>_ w. (Inr (), w\<lparr>kv_projects := Some projects\<rparr>))"

definition redis_get_files :: "fileMetadata list option io" where
  "redis_get_files = andThen (kv_request (KvGet FILES_KEY)) (\<lambda>_ w. (Inr (kv_files w), w))"

definition redis_set_files :: "fileMetadata list \<Rightarrow> unit io" where
  "redis_set_files files =
     andThen (kv_request (KvSet FILES_KEY)) (\<lambda>_ w. (Inr (), w\<lparr>kv_files := Some files\<rparr>))"

text \<open>
  \<^verbatim>\<open>del(url)\<close> of the blob client: removes the object; an object that is not there
  is no error.
\<close>

definition del :: "string \<Rightarrow> unit io" where
  "del blob w =
     (let w1 = (logged (BlobDel blob) w)\<lparr>blob_outages := tl (blob_outages w)\<rparr>
      in case blob_outages w of
           Some msg # _ \<Rightarrow> (Inl (RemoteError msg), w1)
         | _ \<Rightarrow> (Inr (), w1\<lparr>blobs := blobs w - {blob}\<rparr>))"

section \<open>Projects store (projects-server)\<close>

definition ensureDataDir :: "unit io" where
  "ensureDataDir =
     try_catch
       (andThen existsSync_DATA_DIR (\<lambda>dirExists.
        andThen (if \<not> dirExists then mkdirSync_DATA_DIR else ret ()) (\<lambda>_.
        andThen existsSync_PROJECTS_FILE (\<lambda>fileExists.
        if \<not> fileExists then writeFileSync_PROJECTS_FILE (Document []) else ret ()))))
       (\<lambda>error. throw error)"

definition getAllProjectsLocal :: "project list io" where
  "getAllProjectsLocal =
     try_catch
       (andThen ensureDataDir (\<lambda>_.
        andThen readFileSync_PROJECTS_FILE (\<lambda>data. JSON_parse data)))
       (\<lambda>error. ret [])"

definition saveProjectsLocal :: "project list \<Rightarrow> unit io" where
  "saveProjectsLocal projects =
     try_catch
       (andThen ensureDataDir (\<lambda>_. writeFileSync_PROJECTS_FILE (Document projects)))
       (\<lambda>error. throw error)"

text \<open>\<^verbatim>\<open>projects || []\<close>\<close>

definition orEmpty :: "'a list option \<Rightarrow> 'a list" where
  "orEmpty v = (case v of None \<Rightarrow> [] | Some xs \<Rightarrow> xs)"

definition getAllProjectsFromKV :: "env \<Rightarrow> project list io" where
  "getAllProjectsFromKV e =
     (if \<not> shouldUseRedis e then getAllProjectsLocal
      else try_catch
        (case getRedisConfig e of
           None \<Rightarrow>
             if isVercelPlatform e then throw ConfigurationMissing
             else getAllProjectsLocal
         | Some redisConfig \<Rightarrow>
             andThen redis_get_projects (\<lambda>projects. ret (orEmpty projects)))
        (\<lambda>error.
           if isVercelPlatform e then throw error
           else getAllProjectsLocal))"

definition saveProjectsToKV :: "env \<Rightarrow> project list \<Rightarrow> unit io" where
  "saveProjectsToKV e projects =
     (if \<not> shouldUseRedis e
      then try_catch (saveProjectsLocal projects) (\<lambda>error. throw error)
      else try_catch
        (case getRedisConfig e of
           None \<Rightarrow>
             if isVercelPlatform e then throw ConfigurationMissing
             else saveProjectsLocal projects
         | Some redisConfig \<Rightarrow> redis_set_projects projects)
        (\<lambda>error.
           if isVercelPlatform e then throw error
           else try_catch (saveProjectsLocal projects) (\<lambda>localError. throw localError)))"

definition getAllProjects :: "env \<Rightarrow> project list io" where
  "getAllProjects e = getAllProjectsFromKV e"

text \<open>
  The three clock readings are made in the order of the object literal: \<^verbatim>\<open>Date.now()\<close>
  for \<open>id\<close>, then one \<^verbatim>\<open>new Date()\<close> for \<open>createdAt\<close>, then another for \<open>updatedAt\<close>.
\<close>

definition createProject ::
  "env \<Rightarrow> string \<Rightarrow> string option \<Rightarrow> string option \<Rightarrow> string option \<Rightarrow> project io" where
  "createProject e name' description' moduleName' supervisorName' =
     andThen (getAllProjectsFromKV e) (\<lambda>projects.
     andThen Date_now (\<lambda>t_id.
     andThen Date_now (\<lambda>t_created.
     andThen Date_now (\<lambda>t_updated.
       let newProject =
         \<lparr>p_id = toString t_id,
          name = name',
          description = description',
          moduleName = moduleName',
          supervisorName = supervisorName',
          createdAt = ISOString t_created,
          updatedAt = ISOString t_updated\<rparr>
       in andThen (saveProjectsToKV e (projects @ [newProject])) (\<lambda>_. ret newProject)))))"

text \<open>\<^verbatim>\<open>Array.prototype.findIndex\<close>; \<open>None\<close> is the \<^verbatim>\<open>-1\<close> of the source.\<close>

fun findIndex :: "('a \<Rightarrow> bool) \<Rightarrow> 'a list \<Rightarrow> nat option" where
  "findIndex P [] = None"
| "findIndex P (x # xs) =
     (if P x then Some 0 else map_option Suc (findIndex P xs))"

text \<open>\<^verbatim>\<open>{ ...existingProject, ...updates, updatedAt: new Date().toISOString() }\<close>\<close>

definition spread :: "project \<Rightarrow> projectUpdates \<Rightarrow> timestamp \<Rightarrow> project" where
  "spread existingProject updates t =
     existingProject
       \<lparr>name := (case u_name updates of None \<Rightarrow> name existingProject | Some v \<Rightarrow> v),
        description :=
          (case u_description updates of None \<Rightarrow> description existingProject | Some v \<Rightarrow> v),
        moduleName :=
          (case u_moduleName updates of None \<Rightarrow> moduleName existingProject | Some v \<Rightarrow> v),
        supervisorName :=
          (case u_supervisorName updates of None \<Rightarrow> supervisorName existingProject | Some v \<Rightarrow> v),
        updatedAt := t\<rparr>"

definition updateProject :: "env \<Rightarrow> string \<Rightarrow> projectUpdates \<Rightarrow> project option io" where
  "updateProject e id' updates =
     andThen (getAllProjectsFromKV e) (\<lambda>projects.
       case findIndex (\<lambda>p. p_id p = id') projects of
         None \<Rightarrow> ret None
       | Some projectIndex \<Rightarrow>
           let existingProject = projects ! projectIndex
           in andThen Date_now (\<lambda>t.
                let projects' = projects[projectIndex := spread existingProject updates (ISOString t)]
                in andThen (saveProjectsToKV e projects') (\<lambda>_.
                     ret (Some (projects' ! projectIndex)))))"

section \<open>Files store (files.ts)\<close>

text \<open>\<^verbatim>\<open>!!(process.env.BLOB_READ_WRITE_TOKEN && process.env.UPSTASH_REDIS_REST_URL)\<close>\<close>

definition isVercelEnvironment :: "env \<Rightarrow> bool" where
  "isVercelEnvironment e =
     (truthy (BLOB_READ_WRITE_TOKEN e) \<and> truthy (UPSTASH_REDIS_REST_URL e))"

definition ensureFilesDataFile :: "unit io" where
  "ensureFilesDataFile =
     andThen existsSync_DATA_DIR (\<lambda>dirExists.
     andThen (if \<not> dirExists then mkdirSync_DATA_DIR else ret ()) (\<lambda>_.
     andThen existsSync_FILES_DATA_FILE (\<lambda>fileExists.
     if \<not> fileExists then writeFileSync_FILES_DATA_FILE (Document []) else ret ())))"

text \<open>\<open>ensureFilesDataFile\<close> is called outside the \<^verbatim>\<open>try\<close>: what it throws is not caught.\<close>

definition getAllFilesLocal :: "fileMetadata list io" where
  "getAllFilesLocal =
     andThen ensureFilesDataFile (\<lambda>_.
     try_catch
       (andThen readFileSync_FILES_DATA_FILE (\<lambda>data. JSON_parse data))
       (\<lambda>error. ret []))"

definition saveFilesLocal :: "fileMetadata list \<Rightarrow> unit io" where
  "saveFilesLocal files =
     andThen ensureFilesDataFile (\<lambda>_. writeFileSync_FILES_DATA_FILE (Document files))"

definition getAllFilesFromKV :: "env \<Rightarrow> fileMetadata list io" where
  "getAllFilesFromKV e =
     (if \<not> isVercelEnvironment e then getAllFilesLocal
      else try_catch
        (if truthy (UPSTASH_REDIS_REST_URL e)
         then andThen redis_get_files (\<lambda>files. ret (orEmpty files))
         else ret [])
        (\<lambda>error. getAllFilesLocal))"

definition saveFilesToKV :: "env \<Rightarrow> fileMetadata list \<Rightarrow> unit io" where
  "saveFilesToKV e files =
     (if \<not> isVercelEnvironment e then saveFilesLocal files
      else try_catch
        (if truthy (UPSTASH_REDIS_REST_URL e)
         then redis_set_files files
         else ret ())
        (\<lambda>error. saveFilesLocal files))"

text \<open>\<^verbatim>\<open>path.join(UPLOADS_DIR, projectId, categoryId, filename)\<close>\<close>

definition getFilePath :: "string \<Rightarrow> string \<Rightarrow> string \<Rightarrow> string" where
  "getFilePath projectId' categoryId' filename' =
     path_join [UPLOADS_DIR, projectId', categoryId', filename']"

definition matches :: "string \<Rightarrow> string \<Rightarrow> string \<Rightarrow> fileMetadata \<Rightarrow> bool" where
  "matches projectId' categoryId' filename' f =
     (projectId f = projectId' \<and> categoryId f = categoryId' \<and> filename f = filename')"

definition deleteFile :: "env \<Rightarrow> string \<Rightarrow> string \<Rightarrow> string \<Rightarrow> unit io" where
  "deleteFile e projectId' categoryId' filename' =
     andThen (getAllFilesFromKV e) (\<lambda>files.
       let fileMetadata = find (matches projectId' categoryId' filename') files
       in andThen
            (if (case fileMetadata of None \<Rightarrow> False | Some m \<Rightarrow> truthy (blobUrl m))
                  \<and> isVercelEnvironment e
             then try_catch (del (the (blobUrl (the fileMetadata)))) (\<lambda>error. ret ())
             else if \<not> isVercelEnvironment e
             then (let filePath = getFilePath projectId' categoryId' filename'
                   in andThen (existsSync filePath) (\<lambda>fileExists.
                        if fileExists then unlinkSync filePath else ret ()))
             else ret ())
            (\<lambda>_.
               let filtered = filter (\<lambda>f. \<not> matches projectId' categoryId' filename' f) files
               in saveFilesToKV e filtered))"

section \<open>Example environments, records and worlds\<close>

text \<open>
  \<open>localEnv\<close>: a general-purpose host without any credentials; \<open>managedEnv\<close>: the managed
  platform without credentials; \<open>partialEnv\<close>: a URL without its token; \<open>upstashEnv\<close>: a
  matched pair on a general-purpose host; \<open>blobEnv\<close>: the managed platform with the
  key-value pair and the blob token; \<open>hostBlobEnv\<close>: a general-purpose host with both. \<open>emptyWorld\<close>: nothing stored anywhere, the local
  filesystem writable, the clock standing at 1700000000000, every request going through.
\<close>

definition localEnv :: env where
  "localEnv = \<lparr>VERCEL = None, VERCEL_ENV = None, UPSTASH_REDIS_REST_URL = None,
     UPSTASH_REDIS_REST_TOKEN = None, KV_REST_API_URL = None, KV_REST_API_TOKEN = None,
     BLOB_READ_WRITE_TOKEN = None\<rparr>"

definition managedEnv :: env where
  "managedEnv = localEnv\<lparr>VERCEL := Some ''1''\<rparr>"

definition partialEnv :: env where
  "partialEnv = localEnv\<lparr>UPSTASH_REDIS_REST_URL := Some ''https://kv.example''\<rparr>"

definition upstashEnv :: env where
  "upstashEnv = localEnv\<lparr>UPSTASH_REDIS_REST_URL := Some ''https://kv.example'',
     UPSTASH_REDIS_REST_TOKEN := Some ''kv-token''\<rparr>"

definition blobEnv :: env where
  "blobEnv = upstashEnv\<lparr>VERCEL := Some ''1'', BLOB_READ_WRITE_TOKEN := Some ''blob-token''\<rparr>"

definition emptyWorld :: world where
  "emptyWorld = \<lparr>fs_writable = True, data_dir = False, projects_file = None, files_file = None,
     upload_files = {}, dirs = {}, kv_projects = None, kv_files = None, kv_outages = [], blobs = {},
     blob_outages = [], now = 1700000000000, ticks = [], trace = []\<rparr>"

definition report :: fileMetadata where
  "report = \<lparr>f_id = ''1700000001000'', projectId = ''1700000000000'', categoryId = ''reports'',
     filename = ''report.pdf'', originalName = ''Report.pdf'', f_size = 1024,
     mimeType = ''application/pdf'', uploadedAt = ''2023-11-14T22:13:21.000Z'',
     blobUrl = Some ''https://blob.example/report.pdf''\<rparr>"

definition thesis :: project where
  "thesis = \<lparr>p_id = ''1700000000000'', name = ''Thesis'', description = None, moduleName = None,
     supervisorName = None, createdAt = ISOString 1700000000000,
     updatedAt = ISOString 1700000000000\<rparr>"

definition lectureNotes :: project where
  "lectureNotes = \<lparr>p_id = ''1700000000000'', name = ''Notes'', description = None, moduleName = None,
     supervisorName = None, createdAt = ISOString 1700000000000,
     updatedAt = ISOString 1700000000000\<rparr>"

definition storedWorld :: world where
  "storedWorld = emptyWorld\<lparr>data_dir := True, projects_file := Some (Document [thesis])\<rparr>"

definition rename :: projectUpdates where
  "rename = \<lparr>u_name = Some ''Thesis v2'', u_description = None, u_moduleName = None,
     u_supervisorName = None\<rparr>"



definition localReport :: fileMetadata where
  "localReport = report\<lparr>blobUrl := None\<rparr>"


section \<open>Notions used in the statements\<close>

text \<open>
  The specification's \<open>remoteKVAvailable\<close>, in its words: a complete, matched set of
  remote key-value credentials (URL and token of the same set) is present.
\<close>

definition remoteKVAvailable :: "env \<Rightarrow> bool" where
  "remoteKVAvailable e =
     ((truthy (KV_REST_API_URL e) \<and> truthy (KV_REST_API_TOKEN e))
      \<or> (truthy (UPSTASH_REDIS_REST_URL e) \<and> truthy (UPSTASH_REDIS_REST_TOKEN e)))"

text \<open>A request to the remote key-value store.\<close>

definition kv_event :: "event \<Rightarrow> bool" where
  "kv_event ev = (case ev of KvGet _ \<Rightarrow> True | KvSet _ \<Rightarrow> True | _ \<Rightarrow> False)"

text \<open>The next request of an outage schedule goes through.\<close>

definition succeeds :: "string option list \<Rightarrow> bool" where
  "succeeds outages = (case outages of Some msg # _ \<Rightarrow> False | _ \<Rightarrow> True)"

text \<open>A removal of file content, remote or local.\<close>

definition content_event :: "event \<Rightarrow> bool" where
  "content_event ev = (case ev of BlobDel _ \<Rightarrow> True | FsUnlink _ \<Rightarrow> True | _ \<Rightarrow> False)"

text \<open>The \<^verbatim>\<open>filtered\<close> of \<open>deleteFile\<close>: the collection without the matching records.\<close>

definition filtered :: "string \<Rightarrow> string \<Rightarrow> string \<Rightarrow> fileMetadata list \<Rightarrow> fileMetadata list" where
  "filtered p c f files = filter (\<lambda>x. \<not> matches p c f x) files"

section \<open>Lemmas on the projects store\<close>

lemmas io_defs = ret_def throw_def andThen_def try_catch_def

lemma getRedisConfig_None_iff: "(getRedisConfig e = None) = (\<not> remoteKVAvailable e)"
  by (simp add: getRedisConfig_def remoteKVAvailable_def)

lemma available_shouldUseRedis: "remoteKVAvailable e \<Longrightarrow> shouldUseRedis e"
  by (auto simp: remoteKVAvailable_def shouldUseRedis_def hasRedisConfig_def)

lemma ensureDataDir_cases:
  "ensureDataDir w =
    (if \<not> data_dir w then
       (if fs_writable w then
          (if projects_file w = None
           then (Inr (), w\<lparr>data_dir := True, projects_file := Some (Document []),
                         trace := trace w @ [FsMkdir DATA_DIR, FsWriteFile PROJECTS_FILE]\<rparr>)
           else (Inr (), w\<lparr>data_dir := True, trace := trace w @ [FsMkdir DATA_DIR]\<rparr>))
        else (Inl (FsError ''ENOENT''), w\<lparr>trace := trace w @ [FsMkdir DATA_DIR]\<rparr>))
     else if projects_file w = None then
       (if fs_writable w
        then (Inr (), w\<lparr>projects_file := Some (Document []), trace := trace w @ [FsWriteFile PROJECTS_FILE]\<rparr>)
        else (Inl (FsError ''EROFS''), w\<lparr>trace := trace w @ [FsWriteFile PROJECTS_FILE]\<rparr>))
     else (Inr (), w))"
  by (simp add: ensureDataDir_def io_defs existsSync_DATA_DIR_def
      mkdirSync_DATA_DIR_def existsSync_PROJECTS_FILE_def
      writeFileSync_PROJECTS_FILE_def logged_def Let_def)

lemma getAllProjectsLocal_frame:
  "\<exists>ps w' evs. getAllProjectsLocal w = (Inr ps, w') \<and> trace w' = trace w @ evs \<and> (\<forall>ev\<in>set evs. \<not> kv_event ev)
      \<and> kv_projects w' = kv_projects w \<and> kv_outages w' = kv_outages w"
  by (simp add: getAllProjectsLocal_def io_defs ensureDataDir_cases readFileSync_PROJECTS_FILE_def
        JSON_parse_def kv_event_def split: option.splits document.splits)

lemma projects_managed_no_credentials:
  assumes "isVercelPlatform e" "getRedisConfig e = None"
  shows "getAllProjectsFromKV e w = (Inl ConfigurationMissing, w)"
    and "saveProjectsToKV e projects w = (Inl ConfigurationMissing, w)"
  using assms by (simp_all add: getAllProjectsFromKV_def saveProjectsToKV_def shouldUseRedis_def io_defs)

lemma kv_request_fails:
  "kv_outages w = Some msg # rest \<Longrightarrow>
     kv_request ev w = (Inl (RemoteError msg), w\<lparr>trace := trace w @ [ev], kv_outages := rest\<rparr>)"
  by (simp add: kv_request_def logged_def)

lemma kv_request_ok:
  "succeeds (kv_outages w) \<Longrightarrow>
     kv_request ev w = (Inr (), w\<lparr>trace := trace w @ [ev], kv_outages := tl (kv_outages w)\<rparr>)"
  by (auto simp add: kv_request_def logged_def succeeds_def split: list.splits option.splits)

lemma projects_managed_remote_failure:
  assumes "isVercelPlatform e" "getRedisConfig e = Some c" "kv_outages w = Some msg # rest"
  shows "getAllProjectsFromKV e w =
           (Inl (RemoteError msg), w\<lparr>trace := trace w @ [KvGet PROJECTS_KEY], kv_outages := rest\<rparr>)"
    and "saveProjectsToKV e projects w =
           (Inl (RemoteError msg), w\<lparr>trace := trace w @ [KvSet PROJECTS_KEY], kv_outages := rest\<rparr>)"
  using assms
  by (simp_all add: getAllProjectsFromKV_def saveProjectsToKV_def shouldUseRedis_def io_defs
      redis_get_projects_def redis_set_projects_def kv_request_fails)

lemma projects_unmanaged_remote_failure:
  assumes "\<not> isVercelPlatform e" "getRedisConfig e = Some c" "kv_outages w = Some msg # rest"
  shows "getAllProjectsFromKV e w =
           getAllProjectsLocal (w\<lparr>trace := trace w @ [KvGet PROJECTS_KEY], kv_outages := rest\<rparr>)"
    and "saveProjectsToKV e projects w =
           saveProjectsLocal projects (w\<lparr>trace := trace w @ [KvSet PROJECTS_KEY], kv_outages := rest\<rparr>)"
proof -
  from assms(2) have "remoteKVAvailable e" using getRedisConfig_None_iff [of e] by simp
  then have s: "shouldUseRedis e" by (rule available_shouldUseRedis)
  show "getAllProjectsFromKV e w =
           getAllProjectsLocal (w\<lparr>trace := trace w @ [KvGet PROJECTS_KEY], kv_outages := rest\<rparr>)"
    using assms s
    by (simp add: getAllProjectsFromKV_def io_defs redis_get_projects_def kv_request_fails)
  show "saveProjectsToKV e projects w =
           saveProjectsLocal projects (w\<lparr>trace := trace w @ [KvSet PROJECTS_KEY], kv_outages := rest\<rparr>)"
    using assms s
    by (simp add: saveProjectsToKV_def io_defs redis_set_projects_def kv_request_fails
        split: prod.splits sum.splits)
qed

lemma projects_remote_ok:
  assumes "getRedisConfig e = Some c" "succeeds (kv_outages w)"
  shows "getAllProjectsFromKV e w =
           (Inr (orEmpty (kv_projects w)),
            w\<lparr>trace := trace w @ [KvGet PROJECTS_KEY], kv_outages := tl (kv_outages w)\<rparr>)"
    and "saveProjectsToKV e projects w =
           (Inr (), w\<lparr>trace := trace w @ [KvSet PROJECTS_KEY], kv_outages := tl (kv_outages w),
                      kv_projects := Some projects\<rparr>)"
proof -
  from assms(1) have "remoteKVAvailable e" using getRedisConfig_None_iff [of e] by simp
  then have s: "shouldUseRedis e" by (rule available_shouldUseRedis)
  show "getAllProjectsFromKV e w =
           (Inr (orEmpty (kv_projects w)),
            w\<lparr>trace := trace w @ [KvGet PROJECTS_KEY], kv_outages := tl (kv_outages w)\<rparr>)"
    using assms s
    by (simp add: getAllProjectsFromKV_def io_defs redis_get_projects_def kv_request_ok)
  show "saveProjectsToKV e projects w =
           (Inr (), w\<lparr>trace := trace w @ [KvSet PROJECTS_KEY], kv_outages := tl (kv_outages w),
                      kv_projects := Some projects\<rparr>)"
    using assms s
    by (simp add: saveProjectsToKV_def io_defs redis_set_projects_def kv_request_ok)
qed

lemma projects_no_pair_unmanaged_read:
  assumes "\<not> remoteKVAvailable e" "\<not> isVercelPlatform e"
  shows "getAllProjectsFromKV e = getAllProjectsLocal"
proof -
  have "getAllProjectsFromKV e w = getAllProjectsLocal w" for w
    using assms getRedisConfig_None_iff [of e] getAllProjectsLocal_frame [of w]
    by (auto simp add: getAllProjectsFromKV_def try_catch_def)
  then show ?thesis by (rule ext)
qed

lemma saveProjectsLocal_cases:
  "saveProjectsLocal projects w =
     (case ensureDataDir w of
        (Inl e, w1) \<Rightarrow> (Inl e, w1)
      | (Inr u, w1) \<Rightarrow> writeFileSync_PROJECTS_FILE (Document projects) w1)"
  by (simp add: saveProjectsLocal_def io_defs split: prod.splits sum.splits)

lemma saveProjectsLocal_frame:
  "\<exists>r w' evs. saveProjectsLocal projects w = (r, w') \<and> trace w' = trace w @ evs
      \<and> (\<forall>ev\<in>set evs. \<not> kv_event ev)
      \<and> kv_projects w' = kv_projects w \<and> kv_outages w' = kv_outages w
      \<and> fs_writable w' = fs_writable w"
  by (simp add: saveProjectsLocal_cases ensureDataDir_cases writeFileSync_PROJECTS_FILE_def
        logged_def kv_event_def Let_def)

lemma saveProjectsLocal_success:
  "saveProjectsLocal projects w = (Inr (), w') \<Longrightarrow> projects_file w' = Some (Document projects) \<and> data_dir w'"
  by (auto simp add: saveProjectsLocal_cases ensureDataDir_cases writeFileSync_PROJECTS_FILE_def
        logged_def Let_def split: if_splits)

lemma saveProjectsLocal_fails_again:
  "saveProjectsLocal projects w = (Inl err, w') \<Longrightarrow>
     \<exists>w''. saveProjectsLocal projects w' = (Inl err, w'') \<and> w''\<lparr>trace := t\<rparr> = w'\<lparr>trace := t\<rparr>"
  by (auto simp add: saveProjectsLocal_cases ensureDataDir_cases writeFileSync_PROJECTS_FILE_def
        logged_def Let_def split: if_splits)

lemma findIndex_None: "(findIndex P xs = None) = (\<forall>x\<in>set xs. \<not> P x)"
  by (induction xs) auto



lemma getAllProjectsLocal_cases:
  "getAllProjectsLocal w =
     (case ensureDataDir w of
        (Inl e, w1) \<Rightarrow> (Inr [], w1)
      | (Inr u, w1) \<Rightarrow>
          (Inr (case projects_file w1 of Some (Document ps) \<Rightarrow> ps | _ \<Rightarrow> []), w1))"
  by (simp add: getAllProjectsLocal_def io_defs readFileSync_PROJECTS_FILE_def JSON_parse_def
        split: prod.splits sum.splits option.splits document.splits)

lemma getAllProjectsLocal_store:
  "getAllProjectsLocal w = (r, w1) \<Longrightarrow>
     kv_projects w1 = kv_projects w
     \<and> (projects_file w1 = projects_file w
          \<or> projects_file w = None \<and> projects_file w1 = Some (Document []))
     \<and> (\<exists>evs. trace w1 = trace w @ evs \<and> KvSet PROJECTS_KEY \<notin> set evs)"
  by (auto simp add: getAllProjectsLocal_cases ensureDataDir_cases split: if_splits)

lemma getAllProjectsFromKV_store:
  assumes "getAllProjectsFromKV e w = (r, w1)"
  shows "kv_projects w1 = kv_projects w
     \<and> (projects_file w1 = projects_file w
          \<or> projects_file w = None \<and> projects_file w1 = Some (Document []))
     \<and> (\<exists>evs. trace w1 = trace w @ evs \<and> KvSet PROJECTS_KEY \<notin> set evs)"
proof (cases "getRedisConfig e")
  case None
  then have na: "\<not> remoteKVAvailable e" using getRedisConfig_None_iff [of e] by simp
  show ?thesis
  proof (cases "isVercelPlatform e")
    case True
    with None assms show ?thesis by (simp add: projects_managed_no_credentials)
  next
    case False
    with na assms show ?thesis
      using getAllProjectsLocal_store [of w r w1] by (simp add: projects_no_pair_unmanaged_read)
  qed
next
  case (Some c)
  show ?thesis
  proof (cases "succeeds (kv_outages w)")
    case True
    with Some assms show ?thesis by (auto simp add: projects_remote_ok)
  next
    case False
    then obtain msg rest where o: "kv_outages w = Some msg # rest"
      by (auto simp: succeeds_def split: list.splits option.splits)
    show ?thesis
    proof (cases "isVercelPlatform e")
      case True
      with Some o assms show ?thesis by (auto simp add: projects_managed_remote_failure)
    next
      case False
      let ?w = "w\<lparr>trace := trace w @ [KvGet PROJECTS_KEY], kv_outages := rest\<rparr>"
      from False Some o assms have "getAllProjectsLocal ?w = (r, w1)"
        by (simp add: projects_unmanaged_remote_failure)
      from getAllProjectsLocal_store [OF this] show ?thesis by auto
    qed
  qed
qed

lemma getAllProjectsFromKV_requests:
  "\<exists>r w' evs. getAllProjectsFromKV e w = (r, w') \<and> trace w' = trace w @ evs
      \<and> ((\<exists>ev\<in>set evs. kv_event ev) = remoteKVAvailable e)"
proof (cases "getRedisConfig e")
  case None
  then have na: "\<not> remoteKVAvailable e" using getRedisConfig_None_iff [of e] by simp
  show ?thesis
  proof (cases "isVercelPlatform e")
    case True
    with None na show ?thesis by (simp add: projects_managed_no_credentials)
  next
    case False
    with na show ?thesis
      using getAllProjectsLocal_frame [of w] by (auto simp add: projects_no_pair_unmanaged_read)
  qed
next
  case (Some c)
  then have a: "remoteKVAvailable e" using getRedisConfig_None_iff [of e] by simp
  show ?thesis
  proof (cases "succeeds (kv_outages w)")
    case True
    with Some a show ?thesis by (simp add: projects_remote_ok kv_event_def)
  next
    case False
    then obtain msg rest where o: "kv_outages w = Some msg # rest"
      by (auto simp: succeeds_def split: list.splits option.splits)
    show ?thesis
    proof (cases "isVercelPlatform e")
      case True
      with Some o a show ?thesis by (simp add: projects_managed_remote_failure kv_event_def)
    next
      case False
      let ?w = "w\<lparr>trace := trace w @ [KvGet PROJECTS_KEY], kv_outages := rest\<rparr>"
      from getAllProjectsLocal_frame [of ?w] obtain ps w' evs where
        l: "getAllProjectsLocal ?w = (Inr ps, w')" "trace w' = trace ?w @ evs" by blast
      from False Some o have "getAllProjectsFromKV e w = getAllProjectsLocal ?w"
        by (simp add: projects_unmanaged_remote_failure)
      with l a show ?thesis by (auto simp: kv_event_def)
    qed
  qed
qed

lemma saveProjectsToKV_requests:
  "\<exists>r w' evs. saveProjectsToKV e projects w = (r, w') \<and> trace w' = trace w @ evs
      \<and> ((\<exists>ev\<in>set evs. kv_event ev) = remoteKVAvailable e)"
proof (cases "getRedisConfig e")
  case None
  then have na: "\<not> remoteKVAvailable e" using getRedisConfig_None_iff [of e] by simp
  show ?thesis
  proof (cases "isVercelPlatform e")
    case True
    with None na show ?thesis by (simp add: projects_managed_no_credentials)
  next
    case False
    from saveProjectsLocal_frame [of projects w] obtain r w1 evs where
      l: "saveProjectsLocal projects w = (r, w1)" "trace w1 = trace w @ evs"
         "\<forall>ev\<in>set evs. \<not> kv_event ev" by blast
    from saveProjectsLocal_frame [of projects w1] obtain r2 w2 evs2 where
      l2: "saveProjectsLocal projects w1 = (r2, w2)" "trace w2 = trace w1 @ evs2"
         "\<forall>ev\<in>set evs2. \<not> kv_event ev" by blast
    show ?thesis
    proof (cases r)
      case (Inr u)
      with l None False have "saveProjectsToKV e projects w = (Inr (), w1)"
        by (simp add: saveProjectsToKV_def io_defs)
      with l na show ?thesis by auto
    next
      case (Inl err)
      show ?thesis
      proof (cases "shouldUseRedis e")
        case True
        with Inl l l2 None False have "saveProjectsToKV e projects w = (r2, w2)"
          by (simp add: saveProjectsToKV_def io_defs split: sum.splits)
        with l l2 na show ?thesis by auto
      next
        case nsr: False
        with Inl l have "saveProjectsToKV e projects w = (Inl err, w1)"
          by (simp add: saveProjectsToKV_def io_defs)
        with l na show ?thesis by auto
      qed
    qed
  qed
next
  case (Some c)
  then have a: "remoteKVAvailable e" using getRedisConfig_None_iff [of e] by simp
  show ?thesis
  proof (cases "succeeds (kv_outages w)")
    case True
    with Some a show ?thesis by (simp add: projects_remote_ok kv_event_def)
  next
    case False
    then obtain msg rest where o: "kv_outages w = Some msg # rest"
      by (auto simp: succeeds_def split: list.splits option.splits)
    show ?thesis
    proof (cases "isVercelPlatform e")
      case True
      with Some o a show ?thesis by (simp add: projects_managed_remote_failure kv_event_def)
    next
      case False
      let ?w = "w\<lparr>trace := trace w @ [KvSet PROJECTS_KEY], kv_outages := rest\<rparr>"
      from saveProjectsLocal_frame [of projects ?w] obtain r w' evs where
        l: "saveProjectsLocal projects ?w = (r, w')" "trace w' = trace ?w @ evs" by blast
      from False Some o have "saveProjectsToKV e projects w = saveProjectsLocal projects ?w"
        by (simp add: projects_unmanaged_remote_failure)
      with l a show ?thesis by (auto simp: kv_event_def)
    qed
  qed
qed

lemma getRedisConfig_matched:
  "case getRedisConfig e of
     None \<Rightarrow> \<not> remoteKVAvailable e
   | Some c \<Rightarrow>
       remoteKVAvailable e \<and> url c \<noteq> [] \<and> token c \<noteq> []
       \<and> (KV_REST_API_URL e = Some (url c) \<and> KV_REST_API_TOKEN e = Some (token c)
            \<or> UPSTASH_REDIS_REST_URL e = Some (url c) \<and> UPSTASH_REDIS_REST_TOKEN e = Some (token c))"
  by (auto simp: getRedisConfig_def remoteKVAvailable_def truthy_def split: option.splits)


text \<open>What \<open>createProject\<close> returns, when it returns.\<close>

lemma toString_nonempty: "toString n \<noteq> []"
  by (subst toString.simps) simp

lemma Date_now_monotone:
  "Date_now w = (r, w') \<Longrightarrow> r = Inr (now w') \<and> now w \<le> now w'"
  by (auto simp: Date_now_def split: list.splits)

lemma createProject_record:
  assumes "createProject e n d m s w = (Inr p, w')"
  shows "name p = n \<and> description p = d \<and> moduleName p = m \<and> supervisorName p = s
     \<and> p_id p \<noteq> []
     \<and> (\<exists>t_id t_created t_updated.
           p_id p = toString t_id \<and> createdAt p = ISOString t_created
           \<and> updatedAt p = ISOString t_updated
           \<and> t_id \<le> t_created \<and> t_created \<le> t_updated)"
proof -
  obtain r0 w0 where r0: "getAllProjectsFromKV e w = (r0, w0)" by (cases "getAllProjectsFromKV e w")
  with assms obtain projects where ps: "r0 = Inr projects"
    by (cases r0) (simp_all add: createProject_def io_defs)
  obtain r1 w1 where d1: "Date_now w0 = (r1, w1)" by (cases "Date_now w0")
  obtain r2 w2 where d2: "Date_now w1 = (r2, w2)" by (cases "Date_now w1")
  obtain r3 w3 where d3: "Date_now w2 = (r3, w3)" by (cases "Date_now w2")
  note m1 = Date_now_monotone [OF d1] and m2 = Date_now_monotone [OF d2]
    and m3 = Date_now_monotone [OF d3]
  define q where "q = \<lparr>p_id = toString (now w1), name = n, description = d, moduleName = m,
      supervisorName = s, createdAt = ISOString (now w2), updatedAt = ISOString (now w3)\<rparr>"
  from assms r0 ps d1 d2 d3 m1 m2 m3 have "p = q"
    by (auto simp add: createProject_def io_defs q_def Let_def split: prod.splits sum.splits)
  with m2 m3 show ?thesis
    by (auto simp add: q_def toString_nonempty)
qed

section \<open>Lemmas on the files store\<close>

lemma ensureFilesDataFile_cases:
  "ensureFilesDataFile w =
    (if \<not> data_dir w then
       (if fs_writable w then
          (if files_file w = None
           then (Inr (), w\<lparr>data_dir := True, files_file := Some (Document []),
                         trace := trace w @ [FsMkdir DATA_DIR, FsWriteFile FILES_DATA_FILE]\<rparr>)
           else (Inr (), w\<lparr>data_dir := True, trace := trace w @ [FsMkdir DATA_DIR]\<rparr>))
        else (Inl (FsError ''ENOENT''), w\<lparr>trace := trace w @ [FsMkdir DATA_DIR]\<rparr>))
     else if files_file w = None then
       (if fs_writable w
        then (Inr (), w\<lparr>files_file := Some (Document []), trace := trace w @ [FsWriteFile FILES_DATA_FILE]\<rparr>)
        else (Inl (FsError ''EROFS''), w\<lparr>trace := trace w @ [FsWriteFile FILES_DATA_FILE]\<rparr>))
     else (Inr (), w))"
  by (simp add: ensureFilesDataFile_def io_defs existsSync_DATA_DIR_def
      mkdirSync_DATA_DIR_def existsSync_FILES_DATA_FILE_def
      writeFileSync_FILES_DATA_FILE_def logged_def Let_def)

lemma getAllFilesLocal_cases:
  "getAllFilesLocal w =
     (case ensureFilesDataFile w of
        (Inl e, w1) \<Rightarrow> (Inl e, w1)
      | (Inr u, w1) \<Rightarrow>
          (Inr (case files_file w1 of Some (Document fs) \<Rightarrow> fs | _ \<Rightarrow> []), w1))"
  by (simp add: getAllFilesLocal_def io_defs readFileSync_FILES_DATA_FILE_def JSON_parse_def
        split: prod.splits sum.splits option.splits document.splits)

lemma saveFilesLocal_cases:
  "saveFilesLocal files w =
     (case ensureFilesDataFile w of
        (Inl e, w1) \<Rightarrow> (Inl e, w1)
      | (Inr u, w1) \<Rightarrow> writeFileSync_FILES_DATA_FILE (Document files) w1)"
  by (simp add: saveFilesLocal_def io_defs split: prod.splits sum.splits)

lemma saveFilesLocal_success:
  "saveFilesLocal files w = (Inr (), w') \<Longrightarrow>
     files_file w' = Some (Document files) \<and> data_dir w'
     \<and> kv_files w' = kv_files w \<and> upload_files w' = upload_files w \<and> blobs w' = blobs w
     \<and> (\<exists>evs. trace w' = trace w @ evs \<and> (\<forall>ev\<in>set evs. \<not> content_event ev))"
  by (auto simp add: saveFilesLocal_cases ensureFilesDataFile_cases writeFileSync_FILES_DATA_FILE_def
        logged_def Let_def content_event_def split: if_splits)

lemma files_remote_ok:
  assumes "isVercelEnvironment e" "succeeds (kv_outages w)"
  shows "getAllFilesFromKV e w =
           (Inr (orEmpty (kv_files w)),
            w\<lparr>trace := trace w @ [KvGet FILES_KEY], kv_outages := tl (kv_outages w)\<rparr>)"
    and "saveFilesToKV e files w =
           (Inr (), w\<lparr>trace := trace w @ [KvSet FILES_KEY], kv_outages := tl (kv_outages w),
                      kv_files := Some files\<rparr>)"
  using assms
  by (simp_all add: getAllFilesFromKV_def saveFilesToKV_def isVercelEnvironment_def io_defs
      redis_get_files_def redis_set_files_def kv_request_ok)


lemma files_local:
  assumes "\<not> isVercelEnvironment e"
  shows "getAllFilesFromKV e = getAllFilesLocal" and "saveFilesToKV e files = saveFilesLocal files"
  using assms by (simp_all add: getAllFilesFromKV_def saveFilesToKV_def)



lemma projects_local_save_success:
  assumes "\<not> remoteKVAvailable e" "\<not> isVercelPlatform e"
    and "saveProjectsToKV e projects w = (Inr (), w1)"
  shows "projects_file w1 = Some (Document projects) \<and> data_dir w1"
proof -
  from assms(1) have n: "getRedisConfig e = None" using getRedisConfig_None_iff [of e] by simp
  obtain r w2 where l: "saveProjectsLocal projects w = (r, w2)" by (cases "saveProjectsLocal projects w")
  show ?thesis
  proof (cases r)
    case (Inr u)
    with l n assms(2) have "saveProjectsToKV e projects w = (Inr (), w2)"
      by (simp add: saveProjectsToKV_def io_defs)
    with assms(3) l Inr show ?thesis using saveProjectsLocal_success [of projects w w2] by simp
  next
    case (Inl err)
    with l saveProjectsLocal_fails_again [of projects w err w2]
    obtain w3 where "saveProjectsLocal projects w2 = (Inl err, w3)" by blast
    with l Inl n assms(2) have "fst (saveProjectsToKV e projects w) = Inl err"
      by (simp add: saveProjectsToKV_def io_defs)
    with assms(3) show ?thesis by simp
  qed
qed

lemma getAllProjectsLocal_after_save:
  "projects_file w = Some (Document projects) \<Longrightarrow> data_dir w \<Longrightarrow>
     getAllProjectsLocal w = (Inr projects, w)"
  by (simp add: getAllProjectsLocal_cases ensureDataDir_cases)

lemma getAllFilesLocal_after_save:
  "files_file w = Some (Document files) \<Longrightarrow> data_dir w \<Longrightarrow>
     getAllFilesLocal w = (Inr files, w)"
  by (simp add: getAllFilesLocal_cases ensureFilesDataFile_cases)









section \<open>Evaluation on concrete inputs\<close>

lemmas env_defs = localEnv_def managedEnv_def partialEnv_def upstashEnv_def blobEnv_def
  isVercelPlatform_def hasRedisConfig_def shouldUseRedis_def getRedisConfig_def
  isVercelEnvironment_def truthy_def remoteKVAvailable_def

lemmas path_defs = DATA_DIR_def PROJECTS_FILE_def FILES_DATA_FILE_def UPLOADS_DIR_def
  PROJECTS_KEY_def FILES_KEY_def

lemma toString_example: "toString 1700000000000 = ''1700000000000''"
  by (simp add: toString.simps digit_def)

lemmas projects_eval = createProject_def updateProject_def getAllProjectsFromKV_def
  saveProjectsToKV_def getAllProjectsLocal_cases saveProjectsLocal_cases ensureDataDir_cases
  writeFileSync_PROJECTS_FILE_def logged_def Let_def io_defs Date_now_def
  redis_get_projects_def redis_set_projects_def kv_request_def orEmpty_def

lemmas files_eval = getAllFilesFromKV_def saveFilesToKV_def deleteFile_def
  getAllFilesLocal_cases saveFilesLocal_cases ensureFilesDataFile_cases
  writeFileSync_FILES_DATA_FILE_def logged_def Let_def io_defs
  redis_get_files_def redis_set_files_def kv_request_def orEmpty_def
  del_def existsSync_def unlinkSync_def is_file_def is_dir_def remove_file_def stripSlash_def
  getFilePath_def path_join_def normalize_def matches_def


text \<open>
  A path that \<^verbatim>\<open>path.join\<close> normalises out of the uploads directory reaches the
  collection file itself; a path that names a directory makes \<^verbatim>\<open>unlinkSync\<close> throw.
\<close>

lemma deleteFile_normalised_path_example:
  "getFilePath ''..'' ''data'' ''files.json'' = ''data/files.json''
   \<and> deleteFile localEnv ''..'' ''data'' ''files.json''
        (emptyWorld\<lparr>data_dir := True,
           files_file := Some (Document [report\<lparr>projectId := ''..'', categoryId := ''data'',
                                                filename := ''files.json'', blobUrl := None\<rparr>,
                                         localReport])\<rparr>) =
       (Inr (), emptyWorld\<lparr>data_dir := True, files_file := Some (Document [localReport]),
          trace := [FsUnlink ''data/files.json'', FsWriteFile ''data/files.json'',
                    FsWriteFile ''data/files.json'']\<rparr>)
   \<and> getFilePath ''1700000000000'' ''reports'' '''' = ''uploads/1700000000000/reports''
   \<and> deleteFile localEnv ''1700000000000'' ''reports'' ''''
        (emptyWorld\<lparr>data_dir := True, dirs := {''uploads/1700000000000/reports''},
           files_file := Some (Document [localReport\<lparr>filename := ''''\<rparr>])\<rparr>) =
       (Inl (FsError ''EISDIR''),
        emptyWorld\<lparr>data_dir := True, dirs := {''uploads/1700000000000/reports''},
           files_file := Some (Document [localReport\<lparr>filename := ''''\<rparr>]),
           trace := [FsUnlink ''uploads/1700000000000/reports'']\<rparr>)"
  by (simp add: env_defs path_defs emptyWorld_def files_eval report_def localReport_def)

section \<open>Theorems\<close>

text \<open>
  C10. \<open>isAdminServer\<close> never rejects: its outcome is always a boolean. The boolean is
  true exactly when the cookie store could be read and holds the cookie
  \<^verbatim>\<open>admin_session\<close> with the value \<^verbatim>\<open>authenticated\<close>; it is false in every other case,
  also when reading the cookie store throws.
\<close>

theorem isAdminServer_total:
  "isAdminServer cookies =
     Inr (\<exists>cookieStore. cookies = Inr cookieStore
            \<and> cookieStore ''admin_session'' = Some ''authenticated'')"
  by (cases cookies) (simp_all add: isAdminServer_def ADMIN_COOKIE_NAME_def)

text \<open>
  C3. The remote key-value store is taken as available only with a complete, matched
  credential pair: \<open>getRedisConfig\<close> yields credentials exactly when
  \<open>remoteKVAvailable\<close> (URL and token of the same set, both non-empty) holds, and then
  the URL and the token it yields belong to one set. A URL without its token, or a
  token without its URL, counts as no store: reading or writing the projects collection
  sends a request to the remote store exactly when the matched pair is there.
\<close>

theorem remoteKV_available_only_with_matched_pair:
  "(case getRedisConfig e of
      None \<Rightarrow> \<not> remoteKVAvailable e
    | Some c \<Rightarrow>
        remoteKVAvailable e \<and> url c \<noteq> [] \<and> token c \<noteq> []
        \<and> (KV_REST_API_URL e = Some (url c) \<and> KV_REST_API_TOKEN e = Some (token c)
             \<or> UPSTASH_REDIS_REST_URL e = Some (url c) \<and> UPSTASH_REDIS_REST_TOKEN e = Some (token c)))
   \<and> (\<exists>r w' evs. getAllProjectsFromKV e w = (r, w') \<and> trace w' = trace w @ evs
         \<and> ((\<exists>ev\<in>set evs. kv_event ev) = remoteKVAvailable e))
   \<and> (\<exists>r w' evs. saveProjectsToKV e projects w = (r, w') \<and> trace w' = trace w @ evs
         \<and> ((\<exists>ev\<in>set evs. kv_event ev) = remoteKVAvailable e))"
  using getRedisConfig_matched [of e] getAllProjectsFromKV_requests [of e w]
    saveProjectsToKV_requests [of e projects w]
  by blast

text \<open>C3 at a URL without its token, and at a matched pair.\<close>

theorem remoteKV_available_only_with_matched_pair_witness:
  "hasRedisConfig partialEnv \<and> getRedisConfig partialEnv = None
   \<and> \<not> remoteKVAvailable partialEnv
   \<and> (\<exists>r w' evs. getAllProjectsFromKV partialEnv emptyWorld = (r, w')
         \<and> trace w' = trace emptyWorld @ evs \<and> \<not> (\<exists>ev\<in>set evs. kv_event ev))
   \<and> getRedisConfig upstashEnv = Some \<lparr>url = ''https://kv.example'', token = ''kv-token''\<rparr>
   \<and> remoteKVAvailable upstashEnv
   \<and> (\<exists>r w' evs. saveProjectsToKV upstashEnv [thesis] emptyWorld = (r, w')
         \<and> trace w' = trace emptyWorld @ evs \<and> (\<exists>ev\<in>set evs. kv_event ev))"
proof -
  have p: "hasRedisConfig partialEnv" "getRedisConfig partialEnv = None"
    "\<not> remoteKVAvailable partialEnv"
    "getRedisConfig upstashEnv = Some \<lparr>url = ''https://kv.example'', token = ''kv-token''\<rparr>"
    "remoteKVAvailable upstashEnv"
    by (simp_all add: env_defs)
  from remoteKV_available_only_with_matched_pair [of partialEnv emptyWorld "[]"] p
  have a: "\<exists>r w' evs. getAllProjectsFromKV partialEnv emptyWorld = (r, w')
         \<and> trace w' = trace emptyWorld @ evs \<and> \<not> (\<exists>ev\<in>set evs. kv_event ev)"
    by simp
  from remoteKV_available_only_with_matched_pair [of upstashEnv emptyWorld "[thesis]"] p
  have b: "\<exists>r w' evs. saveProjectsToKV upstashEnv [thesis] emptyWorld = (r, w')
         \<and> trace w' = trace emptyWorld @ evs \<and> (\<exists>ev\<in>set evs. kv_event ev)"
    by simp
  from p a b show ?thesis by blast
qed

text \<open>
  C7. When no record of the collection that \<open>updateProject\<close> reads has the given id, the
  call returns \<^verbatim>\<open>null\<close> (\<open>Inr None\<close>, which is not an error \<open>Inl e\<close>), and it leaves the
  world as the read alone left it: nothing is written back. The read itself leaves the
  remote value untouched and sends no \<^verbatim>\<open>set\<close>; the local document is as before, or
  was created empty where there was none.
\<close>

theorem updateProject_not_found:
  assumes "getAllProjectsFromKV e w = (Inr projects, w1)"
    and "id' \<notin> p_id ` set projects"
  shows "updateProject e id' updates w = (Inr None, w1)
     \<and> kv_projects w1 = kv_projects w
     \<and> (projects_file w1 = projects_file w
          \<or> projects_file w = None \<and> projects_file w1 = Some (Document []))
     \<and> (\<exists>evs. trace w1 = trace w @ evs \<and> KvSet PROJECTS_KEY \<notin> set evs)"
proof -
  from assms(2) have "findIndex (\<lambda>p. p_id p = id') projects = None"
    by (auto simp: findIndex_None)
  with assms(1) have "updateProject e id' updates w = (Inr None, w1)"
    by (simp add: updateProject_def io_defs)
  with getAllProjectsFromKV_store [OF assms(1)] show ?thesis by simp
qed

text \<open>C7 at a stored collection of one record and an id that is not its id.\<close>

theorem updateProject_not_found_witness:
  "getAllProjectsFromKV localEnv storedWorld = (Inr [thesis], storedWorld)
   \<and> ''42'' \<notin> p_id ` set [thesis]
   \<and> updateProject localEnv ''42'' rename storedWorld = (Inr None, storedWorld)"
proof -
  have h1: "getAllProjectsFromKV localEnv storedWorld = (Inr [thesis], storedWorld)"
    by (simp add: env_defs storedWorld_def emptyWorld_def projects_eval)
  have h2: "''42'' \<notin> p_id ` set [thesis]"
    by (simp add: thesis_def)
  from updateProject_not_found [OF h1 h2, of rename] h1 h2 show ?thesis by blast
qed



text \<open>
  C8. Round trip, for both collections and both backends. On the remote backend
  (credentials present, the two requests go through) \<open>writeAll\<close> succeeds and the
  \<open>readAll\<close> that follows returns the sequence written. On the local backend (no
  credentials, and for projects not a managed platform) a \<open>writeAll\<close> that succeeded is
  followed by a \<open>readAll\<close> that returns the sequence written.
\<close>

theorem writeAll_readAll_roundtrip:
  "(remoteKVAvailable e \<and> succeeds (kv_outages w) \<and> succeeds (tl (kv_outages w)) \<longrightarrow>
      (\<exists>w1 w2. saveProjectsToKV e projects w = (Inr (), w1)
          \<and> getAllProjectsFromKV e w1 = (Inr projects, w2)))
   \<and> (\<not> remoteKVAvailable e \<and> \<not> isVercelPlatform e
        \<and> saveProjectsToKV e projects w = (Inr (), w') \<longrightarrow>
      getAllProjectsFromKV e w' = (Inr projects, w'))
   \<and> (isVercelEnvironment e \<and> succeeds (kv_outages w) \<and> succeeds (tl (kv_outages w)) \<longrightarrow>
      (\<exists>w1 w2. saveFilesToKV e files w = (Inr (), w1)
          \<and> getAllFilesFromKV e w1 = (Inr files, w2)))
   \<and> (\<not> isVercelEnvironment e \<and> saveFilesToKV e files w = (Inr (), w') \<longrightarrow>
      getAllFilesFromKV e w' = (Inr files, w'))"
proof (intro conjI impI)
  assume a: "remoteKVAvailable e \<and> succeeds (kv_outages w) \<and> succeeds (tl (kv_outages w))"
  then obtain c where c: "getRedisConfig e = Some c"
    using getRedisConfig_None_iff [of e] by (cases "getRedisConfig e") auto
  from a c show "\<exists>w1 w2. saveProjectsToKV e projects w = (Inr (), w1)
          \<and> getAllProjectsFromKV e w1 = (Inr projects, w2)"
    by (simp add: projects_remote_ok orEmpty_def)
next
  assume a: "\<not> remoteKVAvailable e \<and> \<not> isVercelPlatform e
        \<and> saveProjectsToKV e projects w = (Inr (), w')"
  then have "projects_file w' = Some (Document projects) \<and> data_dir w'"
    using projects_local_save_success by blast
  with a show "getAllProjectsFromKV e w' = (Inr projects, w')"
    by (simp add: projects_no_pair_unmanaged_read getAllProjectsLocal_after_save)
next
  assume a: "isVercelEnvironment e \<and> succeeds (kv_outages w) \<and> succeeds (tl (kv_outages w))"
  then show "\<exists>w1 w2. saveFilesToKV e files w = (Inr (), w1)
          \<and> getAllFilesFromKV e w1 = (Inr files, w2)"
    by (simp add: files_remote_ok orEmpty_def)
next
  assume a: "\<not> isVercelEnvironment e \<and> saveFilesToKV e files w = (Inr (), w')"
  then have n: "\<not> isVercelEnvironment e" and sv: "saveFilesToKV e files w = (Inr (), w')"
    by simp_all
  from sv n have "saveFilesLocal files w = (Inr (), w')" by (simp add: files_local)
  then have "files_file w' = Some (Document files) \<and> data_dir w'"
    using saveFilesLocal_success [of files w w'] by simp
  with n show "getAllFilesFromKV e w' = (Inr files, w')"
    by (simp add: files_local getAllFilesLocal_after_save)
qed

text \<open>C8 at one record, remotely and locally, for both collections.\<close>

theorem writeAll_readAll_roundtrip_witness:
  "(remoteKVAvailable blobEnv \<and> isVercelEnvironment blobEnv
      \<and> succeeds (kv_outages emptyWorld) \<and> succeeds (tl (kv_outages emptyWorld)))
   \<and> (\<exists>w1 w2. saveProjectsToKV blobEnv [thesis] emptyWorld = (Inr (), w1)
          \<and> getAllProjectsFromKV blobEnv w1 = (Inr [thesis], w2))
   \<and> (\<exists>w1 w2. saveFilesToKV blobEnv [report] emptyWorld = (Inr (), w1)
          \<and> getAllFilesFromKV blobEnv w1 = (Inr [report], w2))
   \<and> (\<not> remoteKVAvailable localEnv \<and> \<not> isVercelPlatform localEnv
        \<and> saveProjectsToKV localEnv [thesis] emptyWorld =
            (Inr (), emptyWorld\<lparr>data_dir := True, projects_file := Some (Document [thesis]),
               trace := [FsMkdir ''data'', FsWriteFile ''data/projects.json'',
                         FsWriteFile ''data/projects.json'']\<rparr>))
   \<and> getAllProjectsFromKV localEnv
        (emptyWorld\<lparr>data_dir := True, projects_file := Some (Document [thesis]),
               trace := [FsMkdir ''data'', FsWriteFile ''data/projects.json'',
                         FsWriteFile ''data/projects.json'']\<rparr>) =
        (Inr [thesis], emptyWorld\<lparr>data_dir := True, projects_file := Some (Document [thesis]),
               trace := [FsMkdir ''data'', FsWriteFile ''data/projects.json'',
                         FsWriteFile ''data/projects.json'']\<rparr>)
   \<and> (\<not> isVercelEnvironment localEnv
        \<and> saveFilesToKV localEnv [report] emptyWorld =
            (Inr (), emptyWorld\<lparr>data_dir := True, files_file := Some (Document [report]),
               trace := [FsMkdir ''data'', FsWriteFile ''data/files.json'',
                         FsWriteFile ''data/files.json'']\<rparr>))
   \<and> getAllFilesFromKV localEnv
        (emptyWorld\<lparr>data_dir := True, files_file := Some (Document [report]),
               trace := [FsMkdir ''data'', FsWriteFile ''data/files.json'',
                         FsWriteFile ''data/files.json'']\<rparr>) =
        (Inr [report], emptyWorld\<lparr>data_dir := True, files_file := Some (Document [report]),
               trace := [FsMkdir ''data'', FsWriteFile ''data/files.json'',
                         FsWriteFile ''data/files.json'']\<rparr>)"
proof -
  have r: "remoteKVAvailable blobEnv \<and> isVercelEnvironment blobEnv
      \<and> succeeds (kv_outages emptyWorld) \<and> succeeds (tl (kv_outages emptyWorld))"
    by (simp add: env_defs emptyWorld_def succeeds_def)
  have lp: "\<not> remoteKVAvailable localEnv \<and> \<not> isVercelPlatform localEnv
        \<and> saveProjectsToKV localEnv [thesis] emptyWorld =
            (Inr (), emptyWorld\<lparr>data_dir := True, projects_file := Some (Document [thesis]),
               trace := [FsMkdir ''data'', FsWriteFile ''data/projects.json'',
                         FsWriteFile ''data/projects.json'']\<rparr>)"
    by (simp add: env_defs path_defs emptyWorld_def projects_eval)
  have lf: "\<not> isVercelEnvironment localEnv
        \<and> saveFilesToKV localEnv [report] emptyWorld =
            (Inr (), emptyWorld\<lparr>data_dir := True, files_file := Some (Document [report]),
               trace := [FsMkdir ''data'', FsWriteFile ''data/files.json'',
                         FsWriteFile ''data/files.json'']\<rparr>)"
    by (simp add: env_defs path_defs emptyWorld_def files_eval)
  note remote = writeAll_readAll_roundtrip [of blobEnv emptyWorld "[thesis]" emptyWorld "[report]"]
  note localP = writeAll_readAll_roundtrip [of localEnv emptyWorld "[thesis]"
      "emptyWorld\<lparr>data_dir := True, projects_file := Some (Document [thesis]),
               trace := [FsMkdir ''data'', FsWriteFile ''data/projects.json'',
                         FsWriteFile ''data/projects.json'']\<rparr>" "[]"]
  note localF = writeAll_readAll_roundtrip [of localEnv emptyWorld "[]"
      "emptyWorld\<lparr>data_dir := True, files_file := Some (Document [report]),
               trace := [FsMkdir ''data'', FsWriteFile ''data/files.json'',
                         FsWriteFile ''data/files.json'']\<rparr>" "[report]"]
  from r remote lp localP lf localF show ?thesis by blast
qed




text \<open>
  C1 fails on the files collection. On the managed platform without credentials the
  files store does not raise \<open>ConfigurationMissing\<close>: it goes to the local file
  backend, creating the data directory and the document on a writable filesystem and
  failing with the filesystem's own error (after attempting \<open>mkdir\<close>) on a read-only
  one. The projects store does what the claim says (\<open>projects_managed_no_credentials\<close>).
\<close>

theorem files_store_managed_without_credentials:
  "isVercelPlatform managedEnv \<and> getRedisConfig managedEnv = None
   \<and> getAllFilesFromKV managedEnv emptyWorld =
       (Inr [], emptyWorld\<lparr>data_dir := True, files_file := Some (Document []),
                  trace := [FsMkdir ''data'', FsWriteFile ''data/files.json'']\<rparr>)
   \<and> saveFilesToKV managedEnv [report] emptyWorld =
       (Inr (), emptyWorld\<lparr>data_dir := True, files_file := Some (Document [report]),
                  trace := [FsMkdir ''data'', FsWriteFile ''data/files.json'',
                            FsWriteFile ''data/files.json'']\<rparr>)
   \<and> getAllFilesFromKV managedEnv (emptyWorld\<lparr>fs_writable := False\<rparr>) =
       (Inl (FsError ''ENOENT''),
        emptyWorld\<lparr>fs_writable := False, trace := [FsMkdir ''data'']\<rparr>)
   \<and> saveFilesToKV managedEnv [report] (emptyWorld\<lparr>fs_writable := False\<rparr>) =
       (Inl (FsError ''ENOENT''),
        emptyWorld\<lparr>fs_writable := False, trace := [FsMkdir ''data'']\<rparr>)"
  by (simp add: env_defs path_defs emptyWorld_def getAllFilesFromKV_def saveFilesToKV_def
      getAllFilesLocal_cases saveFilesLocal_cases ensureFilesDataFile_cases
      writeFileSync_FILES_DATA_FILE_def logged_def Let_def)

text \<open>
  C2 fails on the files collection. On the managed platform, when the request to the
  remote store throws, the files store falls back to the local file backend: the
  failure is not propagated (writable filesystem), or is replaced by the filesystem's
  error (read-only filesystem). The projects store propagates it unchanged
  (\<open>projects_managed_remote_failure\<close>) and falls back only off the managed platform
  (\<open>projects_unmanaged_remote_failure\<close>).
\<close>

theorem files_store_managed_remote_failure:
  "isVercelPlatform blobEnv \<and> remoteKVAvailable blobEnv
   \<and> getAllFilesFromKV blobEnv
        (emptyWorld\<lparr>kv_files := Some [report], kv_outages := [Some ''ECONNRESET'']\<rparr>) =
       (Inr [], emptyWorld\<lparr>kv_files := Some [report], data_dir := True,
                  files_file := Some (Document []),
                  trace := [KvGet ''files'', FsMkdir ''data'', FsWriteFile ''data/files.json'']\<rparr>)
   \<and> saveFilesToKV blobEnv [report] (emptyWorld\<lparr>kv_outages := [Some ''ECONNRESET'']\<rparr>) =
       (Inr (), emptyWorld\<lparr>data_dir := True, files_file := Some (Document [report]),
                  trace := [KvSet ''files'', FsMkdir ''data'', FsWriteFile ''data/files.json'',
                            FsWriteFile ''data/files.json'']\<rparr>)
   \<and> getAllFilesFromKV blobEnv
        (emptyWorld\<lparr>fs_writable := False, kv_outages := [Some ''ECONNRESET'']\<rparr>) =
       (Inl (FsError ''ENOENT''),
        emptyWorld\<lparr>fs_writable := False, trace := [KvGet ''files'', FsMkdir ''data'']\<rparr>)
   \<and> getAllProjectsFromKV blobEnv
        (emptyWorld\<lparr>fs_writable := False, kv_outages := [Some ''ECONNRESET'']\<rparr>) =
       (Inl (RemoteError ''ECONNRESET''),
        emptyWorld\<lparr>fs_writable := False, trace := [KvGet ''projects'']\<rparr>)"
  by (simp add: env_defs path_defs emptyWorld_def getAllFilesFromKV_def saveFilesToKV_def
      getAllFilesLocal_cases saveFilesLocal_cases ensureFilesDataFile_cases
      writeFileSync_FILES_DATA_FILE_def logged_def Let_def io_defs redis_get_files_def
      redis_set_files_def kv_request_def getAllProjectsFromKV_def redis_get_projects_def)

text \<open>
  C4 fails when two projects are created within one millisecond: \<open>id\<close> is the clock
  reading, so both records get the same \<open>id\<close>, and the stored collection has two
  records that share it.
\<close>

theorem createProject_twice_same_millisecond:
  "createProject localEnv ''Thesis'' None None None emptyWorld =
     (Inr thesis, emptyWorld\<lparr>data_dir := True, projects_file := Some (Document [thesis]),
        trace := [FsMkdir ''data'', FsWriteFile ''data/projects.json'',
                  FsWriteFile ''data/projects.json'']\<rparr>)
   \<and> createProject localEnv ''Notes'' None None None
        (emptyWorld\<lparr>data_dir := True, projects_file := Some (Document [thesis]),
           trace := [FsMkdir ''data'', FsWriteFile ''data/projects.json'',
                     FsWriteFile ''data/projects.json'']\<rparr>) =
     (Inr lectureNotes, emptyWorld\<lparr>data_dir := True, projects_file := Some (Document [thesis, lectureNotes]),
        trace := [FsMkdir ''data'', FsWriteFile ''data/projects.json'',
                  FsWriteFile ''data/projects.json'', FsWriteFile ''data/projects.json'']\<rparr>)
   \<and> p_id thesis = p_id lectureNotes \<and> thesis \<noteq> lectureNotes
   \<and> \<not> distinct (map p_id [thesis, lectureNotes])"
  by (simp add: env_defs path_defs emptyWorld_def createProject_def getAllProjectsFromKV_def
      saveProjectsToKV_def getAllProjectsLocal_cases saveProjectsLocal_cases ensureDataDir_cases
      writeFileSync_PROJECTS_FILE_def logged_def Let_def io_defs Date_now_def toString_example
      thesis_def lectureNotes_def)

text \<open>
  C5 fails when the clock advances between the two \<^verbatim>\<open>new Date()\<close> of the object literal:
  \<open>createdAt\<close> and \<open>updatedAt\<close> of the returned record then differ. (\<open>id\<close> and \<open>name\<close>
  are as the claim says, see \<open>createProject_record\<close>.)
\<close>

theorem createProject_clock_tick_between_timestamps:
  "createProject localEnv ''Thesis'' None None None (emptyWorld\<lparr>ticks := [0, 0, 1]\<rparr>) =
     (Inr (thesis\<lparr>updatedAt := ISOString 1700000000001\<rparr>),
      emptyWorld\<lparr>now := 1700000000001, data_dir := True,
        projects_file := Some (Document [thesis\<lparr>updatedAt := ISOString 1700000000001\<rparr>]),
        trace := [FsMkdir ''data'', FsWriteFile ''data/projects.json'',
                  FsWriteFile ''data/projects.json'']\<rparr>)
   \<and> createdAt (thesis\<lparr>updatedAt := ISOString 1700000000001\<rparr>)
        \<noteq> updatedAt (thesis\<lparr>updatedAt := ISOString 1700000000001\<rparr>)"
  by (simp add: env_defs path_defs emptyWorld_def createProject_def getAllProjectsFromKV_def
      saveProjectsToKV_def getAllProjectsLocal_cases saveProjectsLocal_cases ensureDataDir_cases
      writeFileSync_PROJECTS_FILE_def logged_def Let_def io_defs Date_now_def toString_example
      thesis_def)

end
